theory Spec2Isabelle
  imports Complex_Main "HOL-Library.Word"
begin

section \<open>Data model (src/shared.ts)\<close>

text \<open>
  The values that \<^verbatim>\<open>JSON.parse\<close> puts into the property of an object. The TypeScript
  types of \<^verbatim>\<open>shared.ts\<close> are not checked at run time, so a property of an inbound event
  can hold any of them, or be missing (\<open>Undefined\<close>). A number is the value of the parsed
  double (a literal that overflows parses to an infinity). An array or an object is kept
  as a reference \<open>Obj r\<close>: the source never looks inside a property that holds one, and
  \<^verbatim>\<open>===\<close> compares two of them by identity. With this, \<^verbatim>\<open>===\<close> is the equality of HOL.
\<close>

datatype number = Finite rat | PosInfinity | NegInfinity

datatype jsval = Undefined | Null | Bool bool | Num number | Str string | Obj nat

text \<open>The truthiness of a value: \<^verbatim>\<open>undefined\<close>, \<^verbatim>\<open>null\<close>, \<^verbatim>\<open>false\<close>, \<^verbatim>\<open>0\<close> and \<^verbatim>\<open>""\<close> are falsy.\<close>

fun js_truthy :: "jsval \<Rightarrow> bool" where
  "js_truthy Undefined = False"
| "js_truthy Null = False"
| "js_truthy (Bool b) = b"
| "js_truthy (Num n) = (n \<noteq> Finite 0)"
| "js_truthy (Str s) = (s \<noteq> [])"
| "js_truthy (Obj r) = True"

text \<open>\<^verbatim>\<open>a || b\<close> on values.\<close>

definition js_or :: "jsval \<Rightarrow> jsval \<Rightarrow> jsval" where
  "js_or a b = (if js_truthy a then a else b)"

text \<open>
  \<^verbatim>\<open>ChatMessage = { id: string; content: string; user: string; role: "user" | "assistant" }\<close>,
  with the properties as they are at run time. The field \<^verbatim>\<open>id\<close> is called \<open>id_str\<close> here,
  since \<open>id\<close> is the identity function of HOL. Strings are character lists; \<open>length\<close>
  stands for the \<^verbatim>\<open>.length\<close> of the source.
\<close>

record ChatMessage =
  id_str :: jsval
  content :: jsval
  user :: jsval
  role :: jsval

text \<open>
  An inbound event as \<^verbatim>\<open>handleMessage\<close> reads it after the unchecked cast
  \<^verbatim>\<open>JSON.parse(message) as Message\<close>: the four properties of a chat message, the tag
  \<^verbatim>\<open>type\<close> (called \<open>ev_type\<close>: \<open>type\<close> is not available as a name) and the optional properties
  \<^verbatim>\<open>model\<close>, \<^verbatim>\<open>platform\<close>, \<^verbatim>\<open>useMCP\<close>. A property the parsed value does not have is
  \<open>Undefined\<close>; for a parsed value that is no object (a number, a string, a boolean, an
  array) all eight are. Properties under other names are not modelled.
\<close>

record Inbound = ChatMessage +
  ev_type :: jsval
  model :: jsval
  platform :: jsval
  useMCP :: jsval

text \<open>What \<^verbatim>\<open>JSON.parse\<close> returns: \<^verbatim>\<open>null\<close>, or a value with the properties above.\<close>

datatype parsed = ParsedNull | ParsedValue Inbound

text \<open>The four chat properties of an inbound event: what \<^verbatim>\<open>saveMessage(parsed)\<close> keeps.\<close>

definition chat_of :: "Inbound \<Rightarrow> ChatMessage" where
  "chat_of p = \<lparr>id_str = id_str p, content = content p, user = user p, role = role p\<rparr>"

text \<open>
  The tagged union \<^verbatim>\<open>Message\<close>. The variants \<^verbatim>\<open>add\<close> and \<^verbatim>\<open>update\<close> carry the four
  properties of a chat message and the optional properties \<^verbatim>\<open>model\<close>, \<^verbatim>\<open>platform\<close>,
  \<^verbatim>\<open>useMCP\<close>.
\<close>

datatype Message =
    Add ChatMessage jsval jsval jsval
  | Update ChatMessage jsval jsval jsval
  | All "ChatMessage list"
  | SessionLoading
  | SessionReady string
  | SessionFailed string




text \<open>A thrown \<^verbatim>\<open>Error\<close> object; only its \<^verbatim>\<open>message\<close> is ever read by the source.\<close>

datatype error = Error (message: string)

section \<open>The room object (class SeOnboardingChat of src/server/index.ts)\<close>

text \<open>
  A \<^verbatim>\<open>WebSocket\<close> is an object with identity: a handle (a natural number) into a store of
  sockets. Of a socket the source reads \<^verbatim>\<open>readyState\<close> and calls \<^verbatim>\<open>send\<close>; \<open>sent\<close> is the list
  of frames that \<^verbatim>\<open>send\<close> has delivered so far, oldest first.
\<close>

type_synonym ws = nat

record WebSocket =
  readyState :: nat
  sent :: "string list"

definition READY_STATE_OPEN :: nat where
  "READY_STATE_OPEN = 1"

text \<open>
  The fields of the class: \<^verbatim>\<open>messages\<close>, \<^verbatim>\<open>mcpSessionId\<close> (\<^verbatim>\<open>string | null\<close>) and
  \<^verbatim>\<open>sessions\<close>, a \<^verbatim>\<open>Map<WebSocket, string>\<close> kept as an association list in insertion order
  (the order in which \<^verbatim>\<open>Map.forEach\<close> visits). \<open>sockets\<close> is the store of socket objects.
\<close>

record SeOnboardingChat =
  messages :: "ChatMessage list"
  mcpSessionId :: "string option"
  sessions :: "(ws \<times> string) list"
  sockets :: "ws \<Rightarrow> WebSocket"


subsection \<open>saveMessage\<close>

text \<open>
  \<^verbatim>\<open>const existingMessage = this.messages.find((m) => m.id === message.id);
  if (existingMessage) { this.messages = this.messages.map((m) => m.id === message.id ? message : m) }
  else { this.messages.push(message) }\<close>
\<close>

definition saveMessage :: "SeOnboardingChat \<Rightarrow> ChatMessage \<Rightarrow> SeOnboardingChat" where
  "saveMessage st msg =
     (case find (\<lambda>m. id_str m = id_str msg) (messages st) of
        Some existingMessage \<Rightarrow>
          st\<lparr>messages := map (\<lambda>m. if id_str m = id_str msg then msg else m) (messages st)\<rparr>
      | None \<Rightarrow> st\<lparr>messages := messages st @ [msg]\<rparr>)"

section \<open>The platform\<close>

text \<open>
  The result pushed by the documentation search, as \<^verbatim>\<open>JSON.parse(eventData)\<close> returns it:
  any JSON value. Here the source walks into the value, so its structure is kept. An
  object lists its properties, each name once.
\<close>

datatype json =
    JNull
  | JBool bool
  | JNum number
  | JStr string
  | JArr "json list"
  | JObj "(string \<times> json) list"

text \<open>
  What the class calls but does not define, gathered in one record so that every function
  of the model takes it as its first argument:
  \<^item> \<^verbatim>\<open>JSON.stringify\<close> and \<^verbatim>\<open>JSON.parse\<close>; the latter throws, or returns \<^verbatim>\<open>null\<close> or a value
    whose properties the handler then reads;
  \<^item> the transport: \<open>send_error env w frame\<close> is \<open>None\<close> when \<^verbatim>\<open>w.send(frame)\<close> returns and
    \<open>Some e\<close> when it throws \<open>e\<close>;
  \<^item> \<^verbatim>\<open>crypto.getRandomValues\<close>: \<open>random_byte env i\<close> is byte \<open>i\<close> of the filled array;
  \<^item> \<^verbatim>\<open>crypto.randomUUID()\<close>, one value for each call site: the registry token of
    \<^verbatim>\<open>handleSession\<close>, the identifier of \<^verbatim>\<open>aiMessage\<close> and the identifier of \<^verbatim>\<open>errorMessage\<close>;
  \<^item> \<^verbatim>\<open>env.AI.run(model, {messages})\<close>: throws, or returns the \<^verbatim>\<open>response\<close> text;
  \<^item> the documentation-search backend: \<open>mcp_post\<close> is the \<^verbatim>\<open>fetch\<close> of the message URL (it
    rejects, or gives the HTTP status), \<open>mcp_sse\<close> is what awaiting the race of
    \<^verbatim>\<open>responsePromise\<close> against the timer gives (a rejection, time-outs included, or the
    parsed RPC result);
  \<^item> two conversions of the language that the source reaches only on values outside the
    types of \<^verbatim>\<open>shared.ts\<close>: \<open>ToString_other\<close> is the text a template literal prints for a
    number or an object, and \<open>coerced_less_than_10\<close> is \<^verbatim>\<open>v < 10\<close> for a string, an array or
    an object \<open>v\<close> (it converts \<open>v\<close> to a number first, and may throw).
  A handler runs to its end before the next one starts: the interleaving of handlers at an
  \<^verbatim>\<open>await\<close> is not part of this model.
\<close>

record env =
  JSON_stringify :: "Message \<Rightarrow> string"
  JSON_parse :: "string \<Rightarrow> error + parsed"
  send_error :: "ws \<Rightarrow> string \<Rightarrow> error option"
  random_byte :: "nat \<Rightarrow> 8 word"
  uuid_conn :: string
  uuid_ai :: string
  uuid_err :: string
  AI_run :: "jsval \<Rightarrow> (jsval \<times> jsval) list \<Rightarrow> error + string"
  mcp_post :: "string \<Rightarrow> jsval \<Rightarrow> error + nat"
  mcp_sse :: "string \<Rightarrow> jsval \<Rightarrow> error + json"
  ToString_other :: "jsval \<Rightarrow> string"
  coerced_less_than_10 :: "json \<Rightarrow> error + bool"

text \<open>
  The result of a method: what it threw (\<open>Inl\<close>) or returned (\<open>Inr\<close>), and the room as the
  method left it. Writes made before a \<^verbatim>\<open>throw\<close> stay made.
\<close>

type_synonym 'a outcome = "(error + 'a) \<times> SeOnboardingChat"

text \<open>The truthiness of a \<^verbatim>\<open>string | null | undefined\<close>: \<^verbatim>\<open>null\<close> and \<^verbatim>\<open>""\<close> are falsy.\<close>

definition truthy :: "string option \<Rightarrow> bool" where
  "truthy s = (case s of None \<Rightarrow> False | Some t \<Rightarrow> t \<noteq> [])"

text \<open>\<^verbatim>\<open>a || b\<close> on strings.\<close>

definition or_else :: "string option \<Rightarrow> string \<Rightarrow> string" where
  "or_else a b = (case a of None \<Rightarrow> b | Some t \<Rightarrow> if t = [] then b else t)"

definition ws_send :: "env \<Rightarrow> SeOnboardingChat \<Rightarrow> ws \<Rightarrow> string \<Rightarrow> unit outcome" where
  "ws_send env st w frame =
     (case send_error env w frame of
        Some e \<Rightarrow> (Inl e, st)
      | None \<Rightarrow>
          (Inr (), st\<lparr>sockets := (sockets st)(w := (sockets st w)\<lparr>sent := sent (sockets st w) @ [frame]\<rparr>)\<rparr>))"

subsection \<open>broadcastMessage\<close>

text \<open>
  \<^verbatim>\<open>broadcastMessage(message: Message, sender?: WebSocket) {
    const messageStr = JSON.stringify(message);
    this.sessions.forEach((sessionId, ws) => {
      if (ws.readyState === WebSocket.READY_STATE_OPEN) { ws.send(messageStr); }
    });
  }\<close>
  The loop has no \<^verbatim>\<open>try\<close>: a \<^verbatim>\<open>send\<close> that throws ends it. The parameter \<^verbatim>\<open>sender\<close> is not
  read.
\<close>

fun broadcast_loop :: "env \<Rightarrow> string \<Rightarrow> (ws \<times> string) list \<Rightarrow> SeOnboardingChat \<Rightarrow> unit outcome" where
  "broadcast_loop env messageStr [] st = (Inr (), st)"
| "broadcast_loop env messageStr ((w, sessionId) # rest) st =
     (if readyState (sockets st w) = READY_STATE_OPEN
      then (case ws_send env st w messageStr of
              (Inl e, st') \<Rightarrow> (Inl e, st')
            | (Inr u, st') \<Rightarrow> broadcast_loop env messageStr rest st')
      else broadcast_loop env messageStr rest st)"

definition broadcastMessage :: "env \<Rightarrow> SeOnboardingChat \<Rightarrow> Message \<Rightarrow> ws option \<Rightarrow> unit outcome" where
  "broadcastMessage env st event sender =
     broadcast_loop env (JSON_stringify env event) (sessions st) st"

subsection \<open>initializeMCPSession\<close>

text \<open>
  \<^verbatim>\<open>Array.from(randomBytes, byte => byte.toString(16).padStart(2, '0')).join('').substring(0, 16)\<close>
  over a \<^verbatim>\<open>Uint8Array(32)\<close>.
\<close>

definition hex_digit :: "nat \<Rightarrow> char" where
  "hex_digit n = ''0123456789abcdef'' ! (n mod 16)"

definition toString16 :: "8 word \<Rightarrow> string" where
  "toString16 b =
     (if unat b < 16 then [hex_digit (unat b)]
      else [hex_digit (unat b div 16), hex_digit (unat b mod 16)])"

definition padStart :: "nat \<Rightarrow> char \<Rightarrow> string \<Rightarrow> string" where
  "padStart n c s = replicate (n - length s) c @ s"

definition generateSessionId :: "env \<Rightarrow> string" where
  "generateSessionId env =
     take 16 (concat (map (\<lambda>i. padStart 2 (CHR ''0'') (toString16 (random_byte env i))) [0..<32]))"

text \<open>
  \<^verbatim>\<open>try { broadcast(session_loading); sessionId = ...; this.mcpSessionId = sessionId;
        broadcast(session_ready) }
  catch (error) { broadcast(session_failed, error.message) }\<close>
\<close>

definition initializeMCPSession :: "env \<Rightarrow> SeOnboardingChat \<Rightarrow> unit outcome" where
  "initializeMCPSession env st =
     (case broadcastMessage env st SessionLoading None of
        (Inl e, st1) \<Rightarrow> broadcastMessage env st1 (SessionFailed (message e)) None
      | (Inr u, st1) \<Rightarrow>
          (let sessionId = generateSessionId env;
               st2 = st1\<lparr>mcpSessionId := Some sessionId\<rparr>
           in case broadcastMessage env st2 (SessionReady sessionId) None of
                (Inl e, st3) \<Rightarrow> broadcastMessage env st3 (SessionFailed (message e)) None
              | (Inr u, st3) \<Rightarrow> (Inr (), st3)))"

subsection \<open>handleSession\<close>


subsection \<open>handleMCPRequest\<close>

text \<open>The decimal text of a number, as a template literal prints \<^verbatim>\<open>${mcpResponse.status}\<close>.\<close>

fun show_nat :: "nat \<Rightarrow> string" where
  "show_nat n =
     (if n < 10 then [''0123456789'' ! n]
      else show_nat (n div 10) @ [''0123456789'' ! (n mod 10)])"

text \<open>
  Reading properties of a JSON value that is not \<^verbatim>\<open>null\<close>. Under the names \<^verbatim>\<open>result\<close>,
  \<^verbatim>\<open>content\<close> and \<^verbatim>\<open>text\<close> only an object can have a property. Under the index \<^verbatim>\<open>0\<close> an array
  has its first element, a string its first character and an object its property \<^verbatim>\<open>"0"\<close>.
  \<^verbatim>\<open>length\<close> is the number of elements of an array, of characters of a string, and a
  property like any other of an object. A missing property reads as \<^verbatim>\<open>undefined\<close>, here
  \<open>None\<close>.
\<close>

definition get_named :: "json \<Rightarrow> string \<Rightarrow> json option" where
  "get_named v name = (case v of JObj props \<Rightarrow> map_of props name | _ \<Rightarrow> None)"

definition get_index0 :: "json \<Rightarrow> json option" where
  "get_index0 v =
     (case v of
        JArr xs \<Rightarrow> (case xs of [] \<Rightarrow> None | x # rest \<Rightarrow> Some x)
      | JStr s \<Rightarrow> (case s of [] \<Rightarrow> None | c # rest \<Rightarrow> Some (JStr [c]))
      | JObj props \<Rightarrow> map_of props ''0''
      | _ \<Rightarrow> None)"

definition get_length :: "json \<Rightarrow> json option" where
  "get_length v =
     (case v of
        JArr xs \<Rightarrow> Some (JNum (Finite (of_nat (length xs))))
      | JStr s \<Rightarrow> Some (JNum (Finite (of_nat (length s))))
      | JObj props \<Rightarrow> map_of props ''length''
      | _ \<Rightarrow> None)"

text \<open>\<^verbatim>\<open>a?.b\<close>: \<^verbatim>\<open>undefined\<close> when \<^verbatim>\<open>a\<close> is \<^verbatim>\<open>undefined\<close> or \<^verbatim>\<open>null\<close>, the property otherwise.\<close>

definition optional_chain :: "json option \<Rightarrow> (json \<Rightarrow> json option) \<Rightarrow> json option" where
  "optional_chain a read =
     (case a of None \<Rightarrow> None | Some JNull \<Rightarrow> None | Some v \<Rightarrow> read v)"

text \<open>The truthiness of a JSON value; every array and every object is truthy.\<close>

definition json_truthy :: "json option \<Rightarrow> bool" where
  "json_truthy a =
     (case a of
        None \<Rightarrow> False
      | Some JNull \<Rightarrow> False
      | Some (JBool b) \<Rightarrow> b
      | Some (JNum n) \<Rightarrow> n \<noteq> Finite 0
      | Some (JStr s) \<Rightarrow> s \<noteq> []
      | Some (JArr xs) \<Rightarrow> True
      | Some (JObj props) \<Rightarrow> True)"

text \<open>
  \<^verbatim>\<open>v < 10\<close>: \<^verbatim>\<open>undefined\<close> converts to NaN, which is less than nothing, \<^verbatim>\<open>null\<close> and \<^verbatim>\<open>false\<close>
  to 0 and \<^verbatim>\<open>true\<close> to 1; the conversion of a string, an array or an object is the
  platform's.
\<close>

definition less_than_10 :: "env \<Rightarrow> json option \<Rightarrow> error + bool" where
  "less_than_10 env a =
     (case a of
        None \<Rightarrow> Inr False
      | Some JNull \<Rightarrow> Inr True
      | Some (JBool b) \<Rightarrow> Inr True
      | Some (JNum n) \<Rightarrow>
          Inr (case n of Finite q \<Rightarrow> q < 10 | PosInfinity \<Rightarrow> False | NegInfinity \<Rightarrow> True)
      | Some v \<Rightarrow> coerced_less_than_10 env v)"

text \<open>
  The errors the language itself throws on the paths below, with the messages of V8, the
  engine of the Workers runtime.
\<close>

definition TypeError_null_result :: error where
  "TypeError_null_result =
     Error (''Cannot read properties of null (reading '' @ [CHR 0x27] @ ''result'' @ [CHR 0x27] @ '')'')"

definition TypeError_substring :: error where
  "TypeError_substring = Error ''searchResults.substring is not a function''"

definition TypeError_null_type :: error where
  "TypeError_null_type =
     Error (''Cannot read properties of null (reading '' @ [CHR 0x27] @ ''type'' @ [CHR 0x27] @ '')'')"

definition TypeError_content_substring :: error where
  "TypeError_content_substring = Error ''parsed.content?.substring is not a function''"

text \<open>
  \<^verbatim>\<open>mcpData.result?.content?.[0]?.text\<close>. The first read has no \<^verbatim>\<open>?.\<close>: on \<^verbatim>\<open>null\<close> it throws.
\<close>

definition extract_text :: "json \<Rightarrow> error + json option" where
  "extract_text mcpData =
     (case mcpData of
        JNull \<Rightarrow> Inl TypeError_null_result
      | _ \<Rightarrow>
          Inr (optional_chain
                 (optional_chain
                    (optional_chain (get_named mcpData ''result'') (\<lambda>r. get_named r ''content''))
                    get_index0)
                 (\<lambda>item. get_named item ''text'')))"

definition system_preamble :: string where
  "system_preamble =
     ''You are CF Helper, a Cloudflare expert assistant. Use the following Cloudflare documentation to answer the user'' @ [CHR 0x27] @
     ''s question comprehensively. Always cite specific sections when relevant.'' @ [CHR 0x0A, CHR 0x0A] @
     ''Cloudflare Documentation:'' @ [CHR 0x0A]"

definition synthesis_fallback :: string where
  "synthesis_fallback =
     ''I found some relevant Cloudflare documentation but couldn'' @ [CHR 0x27] @
     ''t process it properly. Please try rephrasing your question.''"

text \<open>
  \<^verbatim>\<open>const searchResults = mcpData.result?.content?.[0]?.text || "";
  if (!searchResults || searchResults.length < 10) {
    throw new Error('MCP returned empty search results'); }\<close>
\<close>

definition EmptyRetrieval :: error where
  "EmptyRetrieval = Error ''MCP returned empty search results''"

definition usable_search_results :: "env \<Rightarrow> json \<Rightarrow> error + json" where
  "usable_search_results env mcpData =
     (case extract_text mcpData of
        Inl e \<Rightarrow> Inl e
      | Inr t \<Rightarrow>
          (let searchResults =
                 (case t of None \<Rightarrow> JStr [] | Some v \<Rightarrow> if json_truthy t then v else JStr [])
           in if \<not> json_truthy (Some searchResults) then Inl EmptyRetrieval
              else (case less_than_10 env (get_length searchResults) of
                      Inl e \<Rightarrow> Inl e
                    | Inr short \<Rightarrow> if short then Inl EmptyRetrieval else Inr searchResults)))"

text \<open>
  The synthesis: \<^verbatim>\<open>env.AI.run(selectedModel, {messages: [system, user]})\<close>, the system message
  ending with \<^verbatim>\<open>searchResults.substring(0, 8000)\<close>, and \<^verbatim>\<open>aiResponse.response || "..."\<close>. Only
  a string has the method \<^verbatim>\<open>substring\<close>: on any other value the call throws, before the
  backend is called.
\<close>

definition synthesize :: "env \<Rightarrow> jsval \<Rightarrow> jsval \<Rightarrow> json \<Rightarrow> error + string" where
  "synthesize env selectedModel userQuery searchResults =
     (case searchResults of
        JStr s \<Rightarrow>
          (case AI_run env selectedModel
                  [(Str ''system'', Str (system_preamble @ take 8000 s)),
                   (Str ''user'', userQuery)] of
             Inl e \<Rightarrow> Inl e
           | Inr response \<Rightarrow> Inr (or_else (Some response) synthesis_fallback))
      | _ \<Rightarrow> Inl TypeError_substring)"

text \<open>
  The body of the \<^verbatim>\<open>try\<close> of \<^verbatim>\<open>handleMCPRequest\<close>, in the order of the source: the session,
  the submission (which must be answered with status 202), the awaited result of the push
  channel, the test of the retrieved text, the synthesis.
\<close>

definition handleMCPRequest_try ::
    "env \<Rightarrow> SeOnboardingChat \<Rightarrow> jsval \<Rightarrow> jsval \<Rightarrow> string outcome" where
  "handleMCPRequest_try env st userQuery selectedModel =
     (case (if \<not> truthy (mcpSessionId st) then initializeMCPSession env st else (Inr (), st)) of
        (Inl e, st1) \<Rightarrow> (Inl e, st1)
      | (Inr u, st1) \<Rightarrow>
          (if \<not> truthy (mcpSessionId st1)
           then (Inl (Error ''Could not establish MCP session''), st1)
           else
             (case mcp_post env (or_else (mcpSessionId st1) []) userQuery of
                Inl e \<Rightarrow> (Inl e, st1)
              | Inr status \<Rightarrow>
                  (if status \<noteq> 202
                   then (Inl (Error (''MCP request failed: '' @ show_nat status)), st1)
                   else
                     (case mcp_sse env (or_else (mcpSessionId st1) []) userQuery of
                        Inl e \<Rightarrow> (Inl e, st1)
                      | Inr mcpData \<Rightarrow>
                          (case usable_search_results env mcpData of
                             Inl e \<Rightarrow> (Inl e, st1)
                           | Inr searchResults \<Rightarrow>
                               (synthesize env selectedModel userQuery searchResults, st1)))))))"

text \<open>
  \<^verbatim>\<open>catch (error) { return `I encountered an issue accessing Cloudflare documentation:
  ${error.message}. Please try again or disable MCP search for a general response.`; }\<close>
\<close>

definition mcp_failure_text :: "error \<Rightarrow> string" where
  "mcp_failure_text e =
     ''I encountered an issue accessing Cloudflare documentation: '' @ message e @
     ''. Please try again or disable MCP search for a general response.''"

definition handleMCPRequest ::
    "env \<Rightarrow> SeOnboardingChat \<Rightarrow> jsval \<Rightarrow> jsval \<Rightarrow> string \<times> SeOnboardingChat" where
  "handleMCPRequest env st userQuery selectedModel =
     (case handleMCPRequest_try env st userQuery selectedModel of
        (Inl e, st') \<Rightarrow> (mcp_failure_text e, st')
      | (Inr answer, st') \<Rightarrow> (answer, st'))"

subsection \<open>handleMessage\<close>

definition default_model :: string where
  "default_model = ''@cf/meta/llama-4-scout-17b-16e-instruct''"

text \<open>
  \<^verbatim>\<open>this.messages.filter(msg => msg.role === "user" || msg.role === "assistant")
       .map(msg => ({ role: msg.role, content: msg.content }))\<close>
\<close>

definition conversationHistory :: "SeOnboardingChat \<Rightarrow> (jsval \<times> jsval) list" where
  "conversationHistory st =
     map (\<lambda>msg. (role msg, content msg))
       (filter (\<lambda>msg. role msg = Str ''user'' \<or> role msg = Str ''assistant'') (messages st))"

definition chat_fallback :: string where
  "chat_fallback = ''I'' @ [CHR 0x27] @ ''m here to help with your questions!''"

text \<open>
  The body of the \<^verbatim>\<open>try\<close> in \<^verbatim>\<open>handleMessage\<close>: choose the model, obtain the answer from
  \<^verbatim>\<open>handleMCPRequest\<close> (when \<^verbatim>\<open>parsed.useMCP\<close> is truthy) or from \<^verbatim>\<open>env.AI.run\<close> over the
  conversation history, then save and broadcast \<^verbatim>\<open>aiMessage\<close>.
\<close>

definition dispatch_try :: "env \<Rightarrow> SeOnboardingChat \<Rightarrow> Inbound \<Rightarrow> unit outcome" where
  "dispatch_try env st parsed =
     (let selectedModel = js_or (model parsed) (Str default_model)
      in case (if js_truthy (useMCP parsed)
               then (case handleMCPRequest env st (content parsed) selectedModel of
                       (answer, st1) \<Rightarrow> (Inr answer, st1))
               else (case AI_run env selectedModel (conversationHistory st) of
                       Inl e \<Rightarrow> (Inl e, st)
                     | Inr response \<Rightarrow> (Inr (or_else (Some response) chat_fallback), st))) of
           (Inl e, st1) \<Rightarrow> (Inl e, st1)
         | (Inr aiResponseContent, st1) \<Rightarrow>
             (let aiMessage =
                    \<lparr>id_str = Str (uuid_ai env),
                     content = Str aiResponseContent,
                     user = Str (if js_truthy (useMCP parsed) then ''CF Helper''
                                 else ''SE Onboarding Assistant''),
                     role = Str ''assistant''\<rparr>
              in broadcastMessage env (saveMessage st1 aiMessage)
                   (Add aiMessage Undefined Undefined Undefined) None))"

text \<open>
  What a template literal prints for a value: a string as it is, \<^verbatim>\<open>undefined\<close>, \<^verbatim>\<open>null\<close>,
  \<^verbatim>\<open>true\<close> and \<^verbatim>\<open>false\<close> by name.
\<close>

definition template_text :: "env \<Rightarrow> jsval \<Rightarrow> string" where
  "template_text env v =
     (case v of
        Str s \<Rightarrow> s
      | Undefined \<Rightarrow> ''undefined''
      | Null \<Rightarrow> ''null''
      | Bool b \<Rightarrow> (if b then ''true'' else ''false'')
      | _ \<Rightarrow> ToString_other env v)"

text \<open>
  \<^verbatim>\<open>content: `Thanks for your question: "${parsed.content}". This is the SE Onboarding Lab
  showcasing Cloudflare Workers, AI, and Durable Objects. (AI model temporarily unavailable)`\<close>
\<close>

definition fallback_content :: "string \<Rightarrow> string" where
  "fallback_content c =
     ''Thanks for your question: '' @ [CHR 0x22] @ c @ [CHR 0x22] @
     ''. This is the SE Onboarding Lab showcasing Cloudflare Workers, AI, and Durable Objects. (AI model temporarily unavailable)''"

text \<open>
  \<^verbatim>\<open>console.log('[CONTENT] Message content preview:', parsed.content?.substring(0, 100));\<close>
  The \<^verbatim>\<open>?.\<close> stops at \<^verbatim>\<open>undefined\<close> and \<^verbatim>\<open>null\<close> only: on any other value that is no string
  the call of the missing method throws.
\<close>

definition content_preview :: "jsval \<Rightarrow> error + unit" where
  "content_preview c =
     (case c of
        Undefined \<Rightarrow> Inr ()
      | Null \<Rightarrow> Inr ()
      | Str s \<Rightarrow> Inr ()
      | _ \<Rightarrow> Inl TypeError_content_substring)"

text \<open>
  \<^verbatim>\<open>const parsed = JSON.parse(message as string) as Message;\<close> stands outside every \<^verbatim>\<open>try\<close>, and so
  do the read of \<^verbatim>\<open>parsed.type\<close>, which throws on \<^verbatim>\<open>null\<close>, the preview of the content and the
  first broadcast. Only a value whose \<^verbatim>\<open>type\<close> is the string \<^verbatim>\<open>"add"\<close> has an effect; it is saved
  and broadcast as it is, with no test of its other properties. The \<^verbatim>\<open>catch\<close> saves and
  broadcasts \<^verbatim>\<open>errorMessage\<close>.
\<close>

definition handleMessage :: "env \<Rightarrow> SeOnboardingChat \<Rightarrow> ws \<Rightarrow> string \<Rightarrow> unit outcome" where
  "handleMessage env st webSocket raw =
     (case JSON_parse env raw of
        Inl e \<Rightarrow> (Inl e, st)
      | Inr ParsedNull \<Rightarrow> (Inl TypeError_null_type, st)
      | Inr (ParsedValue parsed) \<Rightarrow>
          (if ev_type parsed = Str ''add''
           then
             (case content_preview (content parsed) of
                Inl e \<Rightarrow> (Inl e, st)
              | Inr u \<Rightarrow>
                  (case broadcastMessage env (saveMessage st (chat_of parsed))
                          (Add (chat_of parsed) (model parsed) (platform parsed) (useMCP parsed))
                          None of
                     (Inl e, st2) \<Rightarrow> (Inl e, st2)
                   | (Inr u, st2) \<Rightarrow>
                       (if role parsed = Str ''user''
                        then (case dispatch_try env st2 parsed of
                                (Inl e, st3) \<Rightarrow>
                                  (let errorMessage =
                                         \<lparr>id_str = Str (uuid_err env),
                                          content = Str (fallback_content
                                                          (template_text env (content parsed))),
                                          user = Str ''SE Onboarding Assistant'',
                                          role = Str ''assistant''\<rparr>
                                   in broadcastMessage env (saveMessage st3 errorMessage)
                                        (Add errorMessage Undefined Undefined Undefined) None)
                              | (Inr u, st3) \<Rightarrow> (Inr (), st3))
                        else (Inr (), st2))))
           else (Inr (), st)))"

section \<open>Concrete platforms and rooms\<close>

text \<open>
  A small serialiser and parser, enough to tell the events apart, and platforms built on
  them: one on which every call succeeds, and variants on which one call fails.
\<close>

definition toy_show :: "jsval \<Rightarrow> string" where
  "toy_show v =
     (case v of
        Str s \<Rightarrow> s
      | Undefined \<Rightarrow> ''undefined''
      | Null \<Rightarrow> ''null''
      | Bool b \<Rightarrow> (if b then ''true'' else ''false'')
      | Num n \<Rightarrow> ''(number)''
      | Obj r \<Rightarrow> ''(object)'')"

definition toy_stringify :: "Message \<Rightarrow> string" where
  "toy_stringify ev =
     (case ev of
        Add m a b c \<Rightarrow> ''add '' @ toy_show (id_str m) @ '' '' @ toy_show (content m)
      | Update m a b c \<Rightarrow> ''update '' @ toy_show (id_str m) @ '' '' @ toy_show (content m)
      | All ms \<Rightarrow> ''all'' @ concat (map (\<lambda>m. '' '' @ toy_show (id_str m)) ms)
      | SessionLoading \<Rightarrow> ''session_loading''
      | SessionReady t \<Rightarrow> ''session_ready '' @ t
      | SessionFailed e \<Rightarrow> ''session_failed '' @ e)"

definition hello :: ChatMessage where
  "hello = \<lparr>id_str = Str ''m1'', content = Str ''hello'', user = Str ''Alice'',
            role = Str ''user''\<rparr>"

definition hello_again :: ChatMessage where
  "hello_again = \<lparr>id_str = Str ''m1'', content = Str ''hello again'', user = Str ''Alice'',
                  role = Str ''user''\<rparr>"

definition reply :: ChatMessage where
  "reply = \<lparr>id_str = Str ''m2'', content = Str ''hi'', user = Str ''Bob'',
            role = Str ''assistant''\<rparr>"

text \<open>
  Inbound values: an event of the union built from a chat message, and an object that has
  the property \<^verbatim>\<open>type\<close> and no other.
\<close>

definition event_of :: "string \<Rightarrow> ChatMessage \<Rightarrow> jsval \<Rightarrow> Inbound" where
  "event_of tag m mcp =
     \<lparr>id_str = id_str m, content = content m, user = user m, role = role m,
      ev_type = Str tag, model = Undefined, platform = Undefined, useMCP = mcp\<rparr>"

definition only_type :: "jsval \<Rightarrow> Inbound" where
  "only_type t =
     \<lparr>id_str = Undefined, content = Undefined, user = Undefined, role = Undefined,
      ev_type = t, model = Undefined, platform = Undefined, useMCP = Undefined\<rparr>"

text \<open>
  The parser knows a few payloads by name: three events of the union, a
  \<^verbatim>\<open>session_loading\<close> event, the object \<^verbatim>\<open>{"type":"add"}\<close> (here \<open>''add''\<close>), an object with an
  unknown tag, an \<^verbatim>\<open>add\<close> whose content is the number 5, the number 42 and \<^verbatim>\<open>null\<close>. On any
  other text it throws.
\<close>

definition toy_parse :: "string \<Rightarrow> error + parsed" where
  "toy_parse raw =
     (if raw = ''add hello'' then Inr (ParsedValue (event_of ''add'' hello Undefined))
      else if raw = ''add hello mcp'' then Inr (ParsedValue (event_of ''add'' hello (Bool True)))
      else if raw = ''update hello'' then Inr (ParsedValue (event_of ''update'' hello_again Undefined))
      else if raw = ''session_loading'' then Inr (ParsedValue (only_type (Str ''session_loading'')))
      else if raw = ''add'' then Inr (ParsedValue (only_type (Str ''add'')))
      else if raw = ''ping'' then Inr (ParsedValue (only_type (Str ''ping'')))
      else if raw = ''add content 5''
        then Inr (ParsedValue ((only_type (Str ''add''))\<lparr>content := Num (Finite 5)\<rparr>))
      else if raw = ''42'' then Inr (ParsedValue (only_type Undefined))
      else if raw = ''null'' then Inr ParsedNull
      else Inl (Error ''Unexpected token''))"

text \<open>
  Results of the documentation search: a usable text, a text of 7 characters, a text that
  is a number, and an object without \<^verbatim>\<open>result\<close>.
\<close>

definition docs_with :: "json \<Rightarrow> json" where
  "docs_with t =
     JObj [(''result'', JObj [(''content'', JArr [JObj [(''type'', JStr ''text''), (''text'', t)]])])]"

definition docs :: json where
  "docs = docs_with (JStr ''Workers run on the edge.'')"

definition short_docs :: json where
  "short_docs = docs_with (JStr ''Workers'')"

definition number_docs :: json where
  "number_docs = docs_with (JNum (Finite 12345))"

definition env0 :: env where
  "env0 =
     \<lparr>JSON_stringify = toy_stringify,
      JSON_parse = toy_parse,
      send_error = (\<lambda>w frame. None),
      random_byte = (\<lambda>i. word_of_nat (37 * i + 11)),
      uuid_conn = ''conn-1'',
      uuid_ai = ''ai-1'',
      uuid_err = ''err-1'',
      AI_run = (\<lambda>model msgs. Inr ''An answer.''),
      mcp_post = (\<lambda>sid query. Inr 202),
      mcp_sse = (\<lambda>sid query. Inr docs),
      ToString_other = (\<lambda>v. ''(value)''),
      coerced_less_than_10 = (\<lambda>v. Inr False)\<rparr>"


definition env_send_down :: env where
  "env_send_down =
     env0\<lparr>send_error := (\<lambda>w frame. if w = 1 then Some (Error ''send failed'') else None)\<rparr>"

definition env_ready_rejected :: env where
  "env_ready_rejected =
     env0\<lparr>send_error :=
            (\<lambda>w frame. if w = 2 \<and> take 13 frame = ''session_ready'' then Some (Error ''rejected'')
                        else None)\<rparr>"


definition env_timeout :: env where
  "env_timeout = env0\<lparr>mcp_sse := (\<lambda>sid query. Inl (Error ''SSE response timeout''))\<rparr>"

definition env_short :: env where
  "env_short = env0\<lparr>mcp_sse := (\<lambda>sid query. Inr short_docs)\<rparr>"

definition env_null :: env where
  "env_null = env0\<lparr>mcp_sse := (\<lambda>sid query. Inr JNull)\<rparr>"

definition env_number :: env where
  "env_number = env0\<lparr>mcp_sse := (\<lambda>sid query. Inr number_docs)\<rparr>"

text \<open>
  A room as the constructor leaves it, and rooms with the connections 1 and 2 open and
  connection 3 closed: a fresh one, and one with a session token.
\<close>

definition new_socket :: WebSocket where
  "new_socket = \<lparr>readyState = READY_STATE_OPEN, sent = []\<rparr>"

definition closed_socket :: WebSocket where
  "closed_socket = \<lparr>readyState = 3, sent = []\<rparr>"

definition room_new :: SeOnboardingChat where
  "room_new = \<lparr>messages = [], mcpSessionId = None, sessions = [], sockets = (\<lambda>w. new_socket)\<rparr>"

definition room3 :: SeOnboardingChat where
  "room3 =
     \<lparr>messages = [], mcpSessionId = None,
      sessions = [(1, ''t1''), (2, ''t2''), (3, ''t3'')],
      sockets = (\<lambda>w. if w = 3 then closed_socket else new_socket)\<rparr>"

definition room3_ready :: SeOnboardingChat where
  "room3_ready = room3\<lparr>mcpSessionId := Some ''0b30557a9fc4e90e''\<rparr>"

text \<open>\<^verbatim>\<open>hay.includes(needle)\<close>: the needle occurs in the hay as a contiguous piece.\<close>

fun str_includes :: "string \<Rightarrow> string \<Rightarrow> bool" where
  "str_includes [] needle = (needle = [])"
| "str_includes (c # cs) needle = (take (length needle) (c # cs) = needle \<or> str_includes cs needle)"


text \<open>
  The socket store after the frames \<open>fs\<close> have been delivered, in this order, to each socket
  of \<open>W\<close> that is open.
\<close>

definition deliver_open :: "string list \<Rightarrow> ws set \<Rightarrow> (ws \<Rightarrow> WebSocket) \<Rightarrow> (ws \<Rightarrow> WebSocket)" where
  "deliver_open fs W socks =
     (\<lambda>w. if w \<in> W \<and> readyState (socks w) = READY_STATE_OPEN
          then (socks w)\<lparr>sent := sent (socks w) @ fs\<rparr>
          else socks w)"

section \<open>The Message Log\<close>

lemma find_None_ids: "(find (\<lambda>m. id_str m = i) ms = None) = (i \<notin> id_str ` set ms)"
  by (induction ms) auto

lemma saveMessage_messages:
  "messages (saveMessage st msg) =
     (if id_str msg \<in> id_str ` set (messages st)
      then map (\<lambda>m. if id_str m = id_str msg then msg else m) (messages st)
      else messages st @ [msg])"
  using find_None_ids[of "id_str msg" "messages st"]
  by (auto simp: saveMessage_def split: option.splits)

lemma saveMessage_ids:
  "id_str msg \<in> id_str ` set (messages st) \<Longrightarrow> map id_str (messages (saveMessage st msg)) = map id_str (messages st)"
  by (simp add: saveMessage_messages)

lemma foldl_saveMessage_append:
  "distinct (map id_str (messages st) @ map id_str ms) \<Longrightarrow>
   messages (foldl saveMessage st ms) = messages st @ ms"
proof (induction ms arbitrary: st)
  case Nil then show ?case by simp
next
  case (Cons m ms)
  have fresh: "id_str m \<notin> id_str ` set (messages st)" using Cons.prems by auto
  then have step: "messages (saveMessage st m) = messages st @ [m]" by (simp add: saveMessage_messages)
  have "distinct (map id_str (messages (saveMessage st m)) @ map id_str ms)"
    using Cons.prems by (simp add: step)
  from Cons.IH[OF this] show ?case by (simp add: step)
qed


lemma saveMessage_frame [simp]:
  "sessions (saveMessage st msg) = sessions st"
  "mcpSessionId (saveMessage st msg) = mcpSessionId st"
  "sockets (saveMessage st msg) = sockets st"
  by (simp_all add: saveMessage_def split: option.splits)

text \<open>
  C3. An upsert whose identifier already occurs in the log keeps the length of the log and
  the identifier at every position, puts the new message at the positions that held this
  identifier and leaves the other positions alone. An upsert with a fresh identifier
  appends. Starting from the empty log, upserts with pairwise distinct identifiers leave
  exactly the upserted messages, in call order.
\<close>

theorem saveMessage_upsert:
  "(id_str msg \<in> id_str ` set (messages st) \<longrightarrow>
      length (messages (saveMessage st msg)) = length (messages st) \<and>
      map id_str (messages (saveMessage st msg)) = map id_str (messages st) \<and>
      (\<forall>i < length (messages st).
         messages (saveMessage st msg) ! i =
           (if id_str (messages st ! i) = id_str msg then msg else messages st ! i))) \<and>
   (id_str msg \<notin> id_str ` set (messages st) \<longrightarrow>
      messages (saveMessage st msg) = messages st @ [msg]) \<and>
   (distinct (map id_str ms) \<longrightarrow>
      messages (foldl saveMessage (st\<lparr>messages := []\<rparr>) ms) = ms \<and>
      length (messages (foldl saveMessage (st\<lparr>messages := []\<rparr>) ms)) = length ms)"
proof (intro conjI impI)
  assume "distinct (map id_str ms)"
  then show m: "messages (foldl saveMessage (st\<lparr>messages := []\<rparr>) ms) = ms"
    using foldl_saveMessage_append[of "st\<lparr>messages := []\<rparr>" ms] by simp
  then show "length (messages (foldl saveMessage (st\<lparr>messages := []\<rparr>) ms)) = length ms" by simp
qed (simp_all add: saveMessage_messages)

theorem saveMessage_upsert_witness:
  "id_str hello_again \<in> id_str ` set (messages (room_new\<lparr>messages := [hello, reply]\<rparr>)) \<and>
   messages (saveMessage (room_new\<lparr>messages := [hello, reply]\<rparr>) hello_again) = [hello_again, reply] \<and>
   id_str reply \<notin> id_str ` set (messages (room_new\<lparr>messages := [hello]\<rparr>)) \<and>
   messages (saveMessage (room_new\<lparr>messages := [hello]\<rparr>) reply) = [hello, reply] \<and>
   distinct (map id_str [hello, reply]) \<and>
   messages (foldl saveMessage (room_new\<lparr>messages := []\<rparr>) [hello, reply]) = [hello, reply]"
proof -
  have a: "id_str hello_again \<in> id_str ` set (messages (room_new\<lparr>messages := [hello, reply]\<rparr>))"
    by (simp add: hello_def hello_again_def reply_def)
  have b: "id_str reply \<notin> id_str ` set (messages (room_new\<lparr>messages := [hello]\<rparr>))"
    by (simp add: hello_def reply_def)
  have c: "distinct (map id_str [hello, reply])"
    by (simp add: hello_def reply_def)
  from a saveMessage_upsert[of hello_again "room_new\<lparr>messages := [hello, reply]\<rparr>" "[]"]
  have "\<forall>i<2. messages (saveMessage (room_new\<lparr>messages := [hello, reply]\<rparr>) hello_again) ! i =
          (if id_str ([hello, reply] ! i) = id_str hello_again then hello_again else [hello, reply] ! i)"
    and "length (messages (saveMessage (room_new\<lparr>messages := [hello, reply]\<rparr>) hello_again)) = 2"
    by simp_all
  then have a': "messages (saveMessage (room_new\<lparr>messages := [hello, reply]\<rparr>) hello_again) = [hello_again, reply]"
    by (simp add: list_eq_iff_nth_eq less_Suc_eq numeral_2_eq_2 hello_def hello_again_def reply_def)
  from b saveMessage_upsert[of reply "room_new\<lparr>messages := [hello]\<rparr>" "[]"]
  have b': "messages (saveMessage (room_new\<lparr>messages := [hello]\<rparr>) reply) = [hello, reply]"
    by simp
  from c saveMessage_upsert[of reply room_new "[hello, reply]"]
  have c': "messages (foldl saveMessage (room_new\<lparr>messages := []\<rparr>) [hello, reply]) = [hello, reply]"
    by blast
  from a a' b b' c c' show ?thesis by blast
qed

section \<open>The Broadcast Engine\<close>

lemma ws_send_ok:
  "send_error env w f = None \<Longrightarrow>
   ws_send env st w f =
     (Inr (), st\<lparr>sockets := (sockets st)(w := (sockets st w)\<lparr>sent := sent (sockets st w) @ [f]\<rparr>)\<rparr>)"
  by (simp add: ws_send_def)

lemma ws_send_fail:
  "send_error env w f = Some e \<Longrightarrow> ws_send env st w f = (Inl e, st)"
  by (simp add: ws_send_def)

lemma broadcast_loop_ok:
  assumes "distinct (map fst kvs)"
    and "\<forall>w \<in> fst ` set kvs. readyState (sockets st w) = READY_STATE_OPEN \<longrightarrow> send_error env w f = None"
  shows "broadcast_loop env f kvs st =
           (Inr (), st\<lparr>sockets := deliver_open [f] (fst ` set kvs) (sockets st)\<rparr>)"
  using assms
proof (induction kvs arbitrary: st)
  case Nil
  then show ?case by (simp add: deliver_open_def)
next
  case (Cons kv kvs)
  obtain w t where kv: "kv = (w, t)" by (cases kv)
  have d: "distinct (map fst kvs)" and wn: "w \<notin> fst ` set kvs" using Cons.prems(1) kv by auto
  show ?case
  proof (cases "readyState (sockets st w) = READY_STATE_OPEN")
    case True
    then have ok: "send_error env w f = None" using Cons.prems(2) kv by simp
    let ?st' = "st\<lparr>sockets := (sockets st)(w := (sockets st w)\<lparr>sent := sent (sockets st w) @ [f]\<rparr>)\<rparr>"
    have pre: "\<forall>v \<in> fst ` set kvs. readyState (sockets ?st' v) = READY_STATE_OPEN \<longrightarrow> send_error env v f = None"
      using Cons.prems(2) wn by auto
    have eq: "deliver_open [f] (fst ` set kvs) (sockets ?st') = deliver_open [f] (fst ` set (kv # kvs)) (sockets st)"
      using wn True by (auto simp: deliver_open_def kv fun_eq_iff)
    have "broadcast_loop env f (kv # kvs) st = broadcast_loop env f kvs ?st'"
      using True by (simp add: kv ws_send_ok[OF ok])
    also have "\<dots> = (Inr (), ?st'\<lparr>sockets := deliver_open [f] (fst ` set kvs) (sockets ?st')\<rparr>)"
      by (rule Cons.IH[OF d pre])
    also have "\<dots> = (Inr (), st\<lparr>sockets := deliver_open [f] (fst ` set (kv # kvs)) (sockets st)\<rparr>)"
      unfolding eq by simp
    finally show ?thesis .
  next
    case False
    have pre: "\<forall>v \<in> fst ` set kvs. readyState (sockets st v) = READY_STATE_OPEN \<longrightarrow> send_error env v f = None"
      using Cons.prems(2) by auto
    have eq: "deliver_open [f] (fst ` set kvs) (sockets st) = deliver_open [f] (fst ` set (kv # kvs)) (sockets st)"
      using False by (auto simp: deliver_open_def kv fun_eq_iff)
    have "broadcast_loop env f (kv # kvs) st = broadcast_loop env f kvs st"
      using False by (simp add: kv)
    also have "\<dots> = (Inr (), st\<lparr>sockets := deliver_open [f] (fst ` set kvs) (sockets st)\<rparr>)"
      by (rule Cons.IH[OF d pre])
    finally show ?thesis unfolding eq .
  qed
qed

lemma broadcast_loop_fail:
  assumes "distinct (map fst (pre @ (w, t) # post))"
    and "\<forall>v \<in> fst ` set pre. readyState (sockets st v) = READY_STATE_OPEN \<longrightarrow> send_error env v f = None"
    and "readyState (sockets st w) = READY_STATE_OPEN"
    and "send_error env w f = Some e"
  shows "broadcast_loop env f (pre @ (w, t) # post) st =
           (Inl e, st\<lparr>sockets := deliver_open [f] (fst ` set pre) (sockets st)\<rparr>)"
  using assms
proof (induction pre arbitrary: st)
  case Nil
  then show ?case by (simp add: deliver_open_def ws_send_fail)
next
  case (Cons kv pre)
  obtain v u where kv: "kv = (v, u)" by (cases kv)
  have d: "distinct (map fst (pre @ (w, t) # post))" and vn: "v \<notin> fst ` set pre" and vw: "v \<noteq> w"
    using Cons.prems(1) kv by auto
  show ?case
  proof (cases "readyState (sockets st v) = READY_STATE_OPEN")
    case True
    then have ok: "send_error env v f = None" using Cons.prems(2) kv by simp
    let ?st' = "st\<lparr>sockets := (sockets st)(v := (sockets st v)\<lparr>sent := sent (sockets st v) @ [f]\<rparr>)\<rparr>"
    have p2: "\<forall>x \<in> fst ` set pre. readyState (sockets ?st' x) = READY_STATE_OPEN \<longrightarrow> send_error env x f = None"
      using Cons.prems(2) vn by auto
    have p3: "readyState (sockets ?st' w) = READY_STATE_OPEN" using Cons.prems(3) vw by simp
    have eq: "deliver_open [f] (fst ` set pre) (sockets ?st') = deliver_open [f] (fst ` set (kv # pre)) (sockets st)"
      using vn True by (auto simp: deliver_open_def kv fun_eq_iff)
    have "broadcast_loop env f ((kv # pre) @ (w, t) # post) st = broadcast_loop env f (pre @ (w, t) # post) ?st'"
      using True by (simp add: kv ws_send_ok[OF ok])
    also have "\<dots> = (Inl e, ?st'\<lparr>sockets := deliver_open [f] (fst ` set pre) (sockets ?st')\<rparr>)"
      by (rule Cons.IH[OF d p2 p3 Cons.prems(4)])
    also have "\<dots> = (Inl e, st\<lparr>sockets := deliver_open [f] (fst ` set (kv # pre)) (sockets st)\<rparr>)"
      unfolding eq by simp
    finally show ?thesis .
  next
    case False
    have p2: "\<forall>x \<in> fst ` set pre. readyState (sockets st x) = READY_STATE_OPEN \<longrightarrow> send_error env x f = None"
      using Cons.prems(2) by auto
    have eq: "deliver_open [f] (fst ` set pre) (sockets st) = deliver_open [f] (fst ` set (kv # pre)) (sockets st)"
      using False by (auto simp: deliver_open_def kv fun_eq_iff)
    have "broadcast_loop env f ((kv # pre) @ (w, t) # post) st = broadcast_loop env f (pre @ (w, t) # post) st"
      using False by (simp add: kv)
    also have "\<dots> = (Inl e, st\<lparr>sockets := deliver_open [f] (fst ` set pre) (sockets st)\<rparr>)"
      by (rule Cons.IH[OF d p2 Cons.prems(3) Cons.prems(4)])
    finally show ?thesis unfolding eq .
  qed
qed

text \<open>
  C1, as the code has it. The parameter \<open>sender\<close> is ignored: whatever it is, when no send
  to an open registered connection throws, the broadcast returns normally and has appended
  the serialised event to every registered connection that is open, the one named by
  \<open>sender\<close> included, and to no other; the log, the registry and the token are as before.
\<close>

theorem broadcastMessage_all_open:
  assumes "distinct (map fst (sessions st))"
    and "\<forall>w \<in> fst ` set (sessions st).
           readyState (sockets st w) = READY_STATE_OPEN \<longrightarrow>
           send_error env w (JSON_stringify env event) = None"
  shows "broadcastMessage env st event sender =
           (Inr (), st\<lparr>sockets := deliver_open [JSON_stringify env event]
                                     (fst ` set (sessions st)) (sockets st)\<rparr>)"
  unfolding broadcastMessage_def using assms by (rule broadcast_loop_ok)

theorem broadcastMessage_all_open_witness:
  "distinct (map fst (sessions room3)) \<and>
   send_error env0 1 (JSON_stringify env0 SessionLoading) = None \<and>
   send_error env0 2 (JSON_stringify env0 SessionLoading) = None \<and>
   broadcastMessage env0 room3 SessionLoading (Some 1) =
     (Inr (), room3\<lparr>sockets := deliver_open [''session_loading''] {1, 2, 3} (sockets room3)\<rparr>)"
proof -
  have d: "distinct (map fst (sessions room3))" by (simp add: room3_def)
  have ok: "\<forall>w \<in> fst ` set (sessions room3).
      readyState (sockets room3 w) = READY_STATE_OPEN \<longrightarrow>
      send_error env0 w (JSON_stringify env0 SessionLoading) = None"
    by (simp add: env0_def)
  have "JSON_stringify env0 SessionLoading = ''session_loading''"
    by (simp add: env0_def toy_stringify_def)
  moreover have "fst ` set (sessions room3) = {1, 2, 3}" by (simp add: room3_def)
  moreover have "send_error env0 1 (JSON_stringify env0 SessionLoading) = None"
    and "send_error env0 2 (JSON_stringify env0 SessionLoading) = None"
    by (simp_all add: env0_def)
  ultimately show ?thesis
    using d broadcastMessage_all_open[OF d ok, of "Some 1"] by simp
qed

text \<open>
  The claim C1 as stated fails: connection 1 is registered and open, the broadcast is
  asked to exclude it, and it receives the frame all the same.
\<close>

theorem broadcastMessage_exclusion_counterexample:
  "1 \<in> fst ` set (sessions room3) \<and>
   readyState (sockets room3 1) = READY_STATE_OPEN \<and>
   sent (sockets room3 1) = [] \<and>
   sent (sockets (snd (broadcastMessage env0 room3 SessionLoading (Some 1))) 1) = [''session_loading'']"
  by (simp add: broadcastMessage_def ws_send_def env0_def room3_def toy_stringify_def
      new_socket_def closed_socket_def READY_STATE_OPEN_def)

text \<open>
  C5, as the code has it. The loop visits the registered connections in registration order
  and skips those that are not open. The first send that throws ends the loop: the
  exception reaches the caller, the connections before it have the frame, and neither the
  failing connection nor any connection after it receives anything.
\<close>

theorem broadcastMessage_aborts_on_failed_send:
  assumes "sessions st = pre @ (w, t) # post"
    and "distinct (map fst (sessions st))"
    and "\<forall>v \<in> fst ` set pre.
           readyState (sockets st v) = READY_STATE_OPEN \<longrightarrow>
           send_error env v (JSON_stringify env event) = None"
    and "readyState (sockets st w) = READY_STATE_OPEN"
    and "send_error env w (JSON_stringify env event) = Some e"
  shows "broadcastMessage env st event sender =
           (Inl e, st\<lparr>sockets := deliver_open [JSON_stringify env event]
                                     (fst ` set pre) (sockets st)\<rparr>)"
  unfolding broadcastMessage_def using assms(2-5) unfolding assms(1)
  by (rule broadcast_loop_fail)

theorem broadcastMessage_aborts_on_failed_send_witness:
  "sessions room3 = [] @ (1, ''t1'') # [(2, ''t2''), (3, ''t3'')] \<and>
   distinct (map fst (sessions room3)) \<and>
   readyState (sockets room3 1) = READY_STATE_OPEN \<and>
   send_error env_send_down 1 (JSON_stringify env_send_down SessionLoading) = Some (Error ''send failed'') \<and>
   broadcastMessage env_send_down room3 SessionLoading None =
     (Inl (Error ''send failed''), room3\<lparr>sockets := deliver_open [''session_loading''] {} (sockets room3)\<rparr>)"
proof -
  have a: "sessions room3 = [] @ (1, ''t1'') # [(2, ''t2''), (3, ''t3'')]" by (simp add: room3_def)
  have d: "distinct (map fst (sessions room3))" by (simp add: room3_def)
  have p: "\<forall>v \<in> fst ` set ([] :: (ws \<times> string) list).
             readyState (sockets room3 v) = READY_STATE_OPEN \<longrightarrow>
             send_error env_send_down v (JSON_stringify env_send_down SessionLoading) = None"
    by simp
  have r: "readyState (sockets room3 1) = READY_STATE_OPEN"
    by (simp add: room3_def new_socket_def)
  have f: "send_error env_send_down 1 (JSON_stringify env_send_down SessionLoading) = Some (Error ''send failed'')"
    by (simp add: env_send_down_def)
  have "JSON_stringify env_send_down SessionLoading = ''session_loading''"
    by (simp add: env_send_down_def env0_def toy_stringify_def)
  then show ?thesis
    using a d r f broadcastMessage_aborts_on_failed_send[OF a d p r f, of None] by simp
qed

text \<open>
  The claim C5 as stated fails: the send to connection 1 throws, the exception reaches the
  caller of the broadcast, and connection 2, registered and open, receives nothing.
\<close>

theorem broadcastMessage_swallow_counterexample:
  "fst (broadcastMessage env_send_down room3 SessionLoading None) = Inl (Error ''send failed'') \<and>
   2 \<in> fst ` set (sessions room3) \<and>
   readyState (sockets room3 2) = READY_STATE_OPEN \<and>
   send_error env_send_down 2 (JSON_stringify env_send_down SessionLoading) = None \<and>
   sent (sockets (snd (broadcastMessage env_send_down room3 SessionLoading None)) 2) = []"
  by (simp add: broadcastMessage_def ws_send_def env_send_down_def env0_def room3_def
      toy_stringify_def new_socket_def closed_socket_def READY_STATE_OPEN_def)

section \<open>Session initialisation\<close>

lemma deliver_open_twice:
  "deliver_open [b] W (deliver_open [a] W socks) = deliver_open [a, b] W socks"
  by (auto simp: deliver_open_def fun_eq_iff)

lemma readyState_deliver_open [simp]:
  "readyState (deliver_open fs W socks w) = readyState (socks w)"
  by (simp add: deliver_open_def)

lemma initializeMCPSession_no_throw:
  assumes d: "distinct (map fst (sessions st))"
    and l: "\<forall>w \<in> fst ` set (sessions st).
           readyState (sockets st w) = READY_STATE_OPEN \<longrightarrow>
           send_error env w (JSON_stringify env SessionLoading) = None"
    and r: "\<forall>w \<in> fst ` set (sessions st).
           readyState (sockets st w) = READY_STATE_OPEN \<longrightarrow>
           send_error env w (JSON_stringify env (SessionReady (generateSessionId env))) = None"
  shows "initializeMCPSession env st =
           (Inr (), st\<lparr>mcpSessionId := Some (generateSessionId env),
                       sockets := deliver_open
                         [JSON_stringify env SessionLoading,
                          JSON_stringify env (SessionReady (generateSessionId env))]
                         (fst ` set (sessions st)) (sockets st)\<rparr>)"
proof -
  let ?W = "fst ` set (sessions st)"
  let ?st1 = "st\<lparr>sockets := deliver_open [JSON_stringify env SessionLoading] ?W (sockets st)\<rparr>"
  let ?st2 = "?st1\<lparr>mcpSessionId := Some (generateSessionId env)\<rparr>"
  have b1: "broadcastMessage env st SessionLoading None = (Inr (), ?st1)"
    unfolding broadcastMessage_def using d l by (rule broadcast_loop_ok)
  have d2: "distinct (map fst (sessions ?st2))" using d by simp
  have r2: "\<forall>w \<in> fst ` set (sessions ?st2).
           readyState (sockets ?st2 w) = READY_STATE_OPEN \<longrightarrow>
           send_error env w (JSON_stringify env (SessionReady (generateSessionId env))) = None"
    using r by simp
  have b2: "broadcastMessage env ?st2 (SessionReady (generateSessionId env)) None =
      (Inr (), ?st2\<lparr>sockets := deliver_open [JSON_stringify env (SessionReady (generateSessionId env))]
                                 (fst ` set (sessions ?st2)) (sockets ?st2)\<rparr>)"
    unfolding broadcastMessage_def using d2 r2 by (rule broadcast_loop_ok)
  show ?thesis
    unfolding initializeMCPSession_def b1 by (simp add: Let_def b2 deliver_open_twice)
qed









lemma generateSessionId_env0: "generateSessionId env0 = ''0b30557a9fc4e90e''"
  by (simp add: generateSessionId_def env0_def padStart_def toString16_def hex_digit_def upt_rec)

text \<open>
  C9, as the code has it. An initialisation attempt during which no send to an open
  registered connection throws returns normally, sets the token to the generated one, and
  has delivered to every open registered connection exactly two frames, in this order:
  \<^verbatim>\<open>session_loading\<close> and \<^verbatim>\<open>session_ready\<close> with the token. No \<^verbatim>\<open>session_failed\<close> is produced.
\<close>

theorem initializeMCPSession_loading_then_ready:
  assumes "distinct (map fst (sessions st))"
    and "\<forall>w \<in> fst ` set (sessions st).
           readyState (sockets st w) = READY_STATE_OPEN \<longrightarrow>
           send_error env w (JSON_stringify env SessionLoading) = None"
    and "\<forall>w \<in> fst ` set (sessions st).
           readyState (sockets st w) = READY_STATE_OPEN \<longrightarrow>
           send_error env w (JSON_stringify env (SessionReady (generateSessionId env))) = None"
  shows "initializeMCPSession env st =
           (Inr (), st\<lparr>mcpSessionId := Some (generateSessionId env),
                       sockets := deliver_open
                         [JSON_stringify env SessionLoading,
                          JSON_stringify env (SessionReady (generateSessionId env))]
                         (fst ` set (sessions st)) (sockets st)\<rparr>)"
  using assms by (rule initializeMCPSession_no_throw)

theorem initializeMCPSession_loading_then_ready_witness:
  "distinct (map fst (sessions room3)) \<and>
   initializeMCPSession env0 room3 =
     (Inr (), room3\<lparr>mcpSessionId := Some ''0b30557a9fc4e90e'',
                   sockets := deliver_open [''session_loading'', ''session_ready 0b30557a9fc4e90e'']
                                {1, 2, 3} (sockets room3)\<rparr>)"
proof -
  have d: "distinct (map fst (sessions room3))" by (simp add: room3_def)
  have l: "\<forall>w \<in> fst ` set (sessions room3).
           readyState (sockets room3 w) = READY_STATE_OPEN \<longrightarrow>
           send_error env0 w (JSON_stringify env0 SessionLoading) = None"
    by (simp add: env0_def)
  have r: "\<forall>w \<in> fst ` set (sessions room3).
           readyState (sockets room3 w) = READY_STATE_OPEN \<longrightarrow>
           send_error env0 w (JSON_stringify env0 (SessionReady (generateSessionId env0))) = None"
    by (simp add: env0_def)
  have f1: "JSON_stringify env0 SessionLoading = ''session_loading''"
    by (simp add: env0_def toy_stringify_def)
  have f2: "JSON_stringify env0 (SessionReady ''0b30557a9fc4e90e'') = ''session_ready 0b30557a9fc4e90e''"
    by (simp add: env0_def toy_stringify_def)
  have W: "fst ` set (sessions room3) = {1, 2, 3}" by (simp add: room3_def)
  show ?thesis
    using d initializeMCPSession_loading_then_ready[OF d l r]
    by (simp add: generateSessionId_env0 f1 f2 W)
qed

text \<open>
  The claim C9 as stated fails. Connections 1 and 2 are open; the send of \<^verbatim>\<open>session_ready\<close>
  to connection 2 throws after connection 1 has received it, the \<^verbatim>\<open>catch\<close> broadcasts
  \<^verbatim>\<open>session_failed\<close>, and connection 1 has received both events in one attempt.
\<close>

theorem initializeMCPSession_both_counterexample:
  "sent (sockets room3 1) = [] \<and>
   sent (sockets (snd (initializeMCPSession env_ready_rejected room3)) 1) =
     [''session_loading'', ''session_ready 0b30557a9fc4e90e'', ''session_failed rejected'']"
proof -
  have g: "generateSessionId env_ready_rejected = ''0b30557a9fc4e90e''"
    by (simp add: generateSessionId_def env_ready_rejected_def env0_def padStart_def
        toString16_def hex_digit_def upt_rec)
  show ?thesis
    unfolding initializeMCPSession_def g Let_def
    by (simp add: broadcastMessage_def ws_send_def env_ready_rejected_def env0_def room3_def
        toy_stringify_def new_socket_def closed_socket_def READY_STATE_OPEN_def)
qed



section \<open>The message handler\<close>









text \<open>
  C10. A payload that parses to a value whose \<^verbatim>\<open>type\<close> is not the string \<^verbatim>\<open>"add"\<close> (an
  \<^verbatim>\<open>update\<close>, \<^verbatim>\<open>all\<close>, \<^verbatim>\<open>session_loading\<close>, \<^verbatim>\<open>session_ready\<close> or \<^verbatim>\<open>session_failed\<close> event, or
  any other tag) makes the handler return normally with the room exactly as it was: the
  log, the registry, the token and every socket are unchanged, so nothing is sent or
  broadcast.
\<close>

theorem handleMessage_not_add:
  assumes "JSON_parse env raw = Inr (ParsedValue parsed)"
    and "ev_type parsed \<noteq> Str ''add''"
  shows "handleMessage env st webSocket raw = (Inr (), st)"
  using assms by (simp add: handleMessage_def)

theorem handleMessage_not_add_witness:
  "JSON_parse env0 ''update hello'' = Inr (ParsedValue (event_of ''update'' hello_again Undefined)) \<and>
   handleMessage env0 room3 1 ''update hello'' = (Inr (), room3) \<and>
   JSON_parse env0 ''session_loading'' = Inr (ParsedValue (only_type (Str ''session_loading''))) \<and>
   handleMessage env0 room3 1 ''session_loading'' = (Inr (), room3)"
proof -
  have p: "JSON_parse env0 ''update hello'' = Inr (ParsedValue (event_of ''update'' hello_again Undefined))"
    by (simp add: env0_def toy_parse_def)
  have p': "ev_type (event_of ''update'' hello_again Undefined) \<noteq> Str ''add''"
    by (simp add: event_of_def)
  have q: "JSON_parse env0 ''session_loading'' = Inr (ParsedValue (only_type (Str ''session_loading'')))"
    by (simp add: env0_def toy_parse_def)
  have q': "ev_type (only_type (Str ''session_loading'')) \<noteq> Str ''add''"
    by (simp add: only_type_def)
  from p q handleMessage_not_add[OF p p'] handleMessage_not_add[OF q q'] show ?thesis by simp
qed



lemma conversationHistory_sockets_update [simp]:
  "conversationHistory (st\<lparr>sockets := X\<rparr>) = conversationHistory st"
  by (simp add: conversationHistory_def)

lemma str_includes_prefix: "str_includes (n @ b) n"
proof (cases "n @ b")
  case Nil
  then show ?thesis by simp
next
  case (Cons c cs)
  have "take (length n) (n @ b) = n" by simp
  then show ?thesis unfolding Cons by simp
qed

lemma str_includes_append: "str_includes (a @ n @ b) n"
proof (induction a)
  case Nil
  show ?case using str_includes_prefix by simp
next
  case (Cons c a)
  then show ?case by simp
qed

lemma mcp_failure_text_names: "str_includes (mcp_failure_text e) (message e)"
  unfolding mcp_failure_text_def by (rule str_includes_append)

lemma mcp_failure_text_suggests: "str_includes (mcp_failure_text e) ''disable MCP search''"
proof -
  have "mcp_failure_text e =
      (''I encountered an issue accessing Cloudflare documentation: '' @ message e @
       ''. Please try again or '') @ ''disable MCP search'' @ '' for a general response.''"
    by (simp add: mcp_failure_text_def)
  then show ?thesis using str_includes_append by metis
qed






section \<open>The Retrieval-Augmented Responder\<close>

lemma try_session_throws:
  assumes "(if \<not> truthy (mcpSessionId st) then initializeMCPSession env st else (Inr (), st)) = (Inl e, st1)"
  shows "handleMCPRequest_try env st userQuery selectedModel = (Inl e, st1)"
  unfolding handleMCPRequest_try_def assms by simp

lemma try_after_session:
  assumes "(if \<not> truthy (mcpSessionId st) then initializeMCPSession env st else (Inr (), st)) = (Inr (), st1)"
  shows "\<not> truthy (mcpSessionId st1) \<Longrightarrow>
           handleMCPRequest_try env st userQuery selectedModel =
             (Inl (Error ''Could not establish MCP session''), st1)"
    and "truthy (mcpSessionId st1) \<Longrightarrow>
         mcp_post env (or_else (mcpSessionId st1) []) userQuery = Inl e \<Longrightarrow>
           handleMCPRequest_try env st userQuery selectedModel = (Inl e, st1)"
    and "truthy (mcpSessionId st1) \<Longrightarrow>
         mcp_post env (or_else (mcpSessionId st1) []) userQuery = Inr status \<Longrightarrow> status \<noteq> 202 \<Longrightarrow>
           handleMCPRequest_try env st userQuery selectedModel =
             (Inl (Error (''MCP request failed: '' @ show_nat status)), st1)"
    and "truthy (mcpSessionId st1) \<Longrightarrow>
         mcp_post env (or_else (mcpSessionId st1) []) userQuery = Inr 202 \<Longrightarrow>
         mcp_sse env (or_else (mcpSessionId st1) []) userQuery = Inl e \<Longrightarrow>
           handleMCPRequest_try env st userQuery selectedModel = (Inl e, st1)"
    and "truthy (mcpSessionId st1) \<Longrightarrow>
         mcp_post env (or_else (mcpSessionId st1) []) userQuery = Inr 202 \<Longrightarrow>
         mcp_sse env (or_else (mcpSessionId st1) []) userQuery = Inr d \<Longrightarrow>
         usable_search_results env d = Inl e \<Longrightarrow>
           handleMCPRequest_try env st userQuery selectedModel = (Inl e, st1)"
    and "truthy (mcpSessionId st1) \<Longrightarrow>
         mcp_post env (or_else (mcpSessionId st1) []) userQuery = Inr 202 \<Longrightarrow>
         mcp_sse env (or_else (mcpSessionId st1) []) userQuery = Inr d \<Longrightarrow>
         usable_search_results env d = Inr v \<Longrightarrow>
         synthesize env selectedModel userQuery v = Inl e \<Longrightarrow>
           handleMCPRequest_try env st userQuery selectedModel = (Inl e, st1)"
  unfolding handleMCPRequest_try_def assms by simp_all

lemma synthesize_throws:
  "AI_run env selectedModel
     [(Str ''system'', Str (system_preamble @ take 8000 s)), (Str ''user'', userQuery)] = Inl e \<Longrightarrow>
   synthesize env selectedModel userQuery (JStr s) = Inl e"
  "\<forall>s. v \<noteq> JStr s \<Longrightarrow> synthesize env selectedModel userQuery v = Inl TypeError_substring"
  by (auto simp: synthesize_def split: json.splits)

lemma usable_search_results_absent:
  "extract_text d = Inr None \<Longrightarrow> usable_search_results env d = Inl EmptyRetrieval"
  "extract_text d = Inr (Some JNull) \<Longrightarrow> usable_search_results env d = Inl EmptyRetrieval"
  by (simp_all add: usable_search_results_def json_truthy_def)

lemma usable_search_results_string:
  "extract_text d = Inr (Some (JStr s)) \<Longrightarrow>
   usable_search_results env d = (if length s < 10 then Inl EmptyRetrieval else Inr (JStr s))"
  by (auto simp: usable_search_results_def json_truthy_def get_length_def less_than_10_def
      Let_def)

text \<open>
  C6, as the code has it. For a retrieval result other than \<^verbatim>\<open>null\<close> (so that the extraction
  returns) whose extracted text is absent (\<^verbatim>\<open>undefined\<close> or \<^verbatim>\<open>null\<close>) or a string, the test of
  the text fails with \<^verbatim>\<open>MCP returned empty search results\<close> exactly when the text is absent,
  empty, or shorter than 10 characters; a string of 10 characters or more passes
  unchanged. Once the session exists, the submission is answered with 202 and the push
  channel has given such a result, the responder fails with that error in the first case
  and otherwise calls the inference backend with the first 8000 characters of the text.
\<close>

theorem usable_search_results_threshold:
  assumes "extract_text mcpData = Inr t"
    and "t = None \<or> t = Some JNull \<or> (\<exists>s. t = Some (JStr s))"
  shows "(usable_search_results env mcpData = Inl EmptyRetrieval) =
           (t = None \<or> t = Some JNull \<or> t = Some (JStr []) \<or>
            (\<exists>s. t = Some (JStr s) \<and> length s < 10)) \<and>
         (\<forall>s. t = Some (JStr s) \<and> 10 \<le> length s \<longrightarrow>
            usable_search_results env mcpData = Inr (JStr s)) \<and>
         (truthy (mcpSessionId st) \<and>
          mcp_post env (or_else (mcpSessionId st) []) userQuery = Inr 202 \<and>
          mcp_sse env (or_else (mcpSessionId st) []) userQuery = Inr mcpData \<longrightarrow>
          handleMCPRequest_try env st userQuery selectedModel =
            (case usable_search_results env mcpData of
               Inl e \<Rightarrow> (Inl e, st)
             | Inr searchResults \<Rightarrow> (synthesize env selectedModel userQuery searchResults, st))) \<and>
         (\<forall>s. synthesize env selectedModel userQuery (JStr s) =
            (case AI_run env selectedModel
                    [(Str ''system'', Str (system_preamble @ take 8000 s)),
                     (Str ''user'', userQuery)] of
               Inl e \<Rightarrow> Inl e
             | Inr response \<Rightarrow> Inr (or_else (Some response) synthesis_fallback)))"
proof -
  have thr: "(usable_search_results env mcpData = Inl EmptyRetrieval) =
           (t = None \<or> t = Some JNull \<or> t = Some (JStr []) \<or>
            (\<exists>s. t = Some (JStr s) \<and> length s < 10))"
    using assms usable_search_results_absent[of mcpData env]
      usable_search_results_string[of mcpData _ env]
    by (auto split: if_splits)
  have pass: "\<forall>s. t = Some (JStr s) \<and> 10 \<le> length s \<longrightarrow>
            usable_search_results env mcpData = Inr (JStr s)"
    using assms(1) usable_search_results_string[of mcpData _ env] by auto
  have comp: "truthy (mcpSessionId st) \<and>
          mcp_post env (or_else (mcpSessionId st) []) userQuery = Inr 202 \<and>
          mcp_sse env (or_else (mcpSessionId st) []) userQuery = Inr mcpData \<longrightarrow>
          handleMCPRequest_try env st userQuery selectedModel =
            (case usable_search_results env mcpData of
               Inl e \<Rightarrow> (Inl e, st)
             | Inr searchResults \<Rightarrow> (synthesize env selectedModel userQuery searchResults, st))"
    by (simp add: handleMCPRequest_try_def)
  have syn: "\<forall>s. synthesize env selectedModel userQuery (JStr s) =
            (case AI_run env selectedModel
                    [(Str ''system'', Str (system_preamble @ take 8000 s)),
                     (Str ''user'', userQuery)] of
               Inl e \<Rightarrow> Inl e
             | Inr response \<Rightarrow> Inr (or_else (Some response) synthesis_fallback))"
    by (simp add: synthesize_def)
  from thr pass comp syn show ?thesis by blast
qed

lemma extract_text_docs_with: "extract_text (docs_with t) = Inr (Some t)"
  by (cases t) (simp_all add: extract_text_def docs_with_def optional_chain_def get_named_def
      get_index0_def)

theorem usable_search_results_threshold_witness:
  "extract_text short_docs = Inr (Some (JStr ''Workers'')) \<and>
   usable_search_results env_short short_docs = Inl EmptyRetrieval \<and>
   handleMCPRequest_try env_short room3_ready (Str ''what is a worker'') (Str default_model) =
     (Inl EmptyRetrieval, room3_ready) \<and>
   extract_text docs = Inr (Some (JStr ''Workers run on the edge.'')) \<and>
   usable_search_results env0 docs = Inr (JStr ''Workers run on the edge.'') \<and>
   handleMCPRequest_try env0 room3_ready (Str ''what is a worker'') (Str default_model) =
     (Inr ''An answer.'', room3_ready)"
proof -
  have x1: "extract_text short_docs = Inr (Some (JStr ''Workers''))"
    unfolding short_docs_def by (rule extract_text_docs_with)
  have x2: "extract_text docs = Inr (Some (JStr ''Workers run on the edge.''))"
    unfolding docs_def by (rule extract_text_docs_with)
  have s1: "Some (JStr ''Workers'') = None \<or> Some (JStr ''Workers'') = Some JNull \<or>
            (\<exists>s. Some (JStr ''Workers'') = Some (JStr s))"
    by simp
  have s2: "Some (JStr ''Workers run on the edge.'') = None \<or>
            Some (JStr ''Workers run on the edge.'') = Some JNull \<or>
            (\<exists>s. Some (JStr ''Workers run on the edge.'') = Some (JStr s))"
    by simp
  have t: "truthy (mcpSessionId room3_ready)"
    by (simp add: truthy_def room3_ready_def)
  have p1: "mcp_post env_short (or_else (mcpSessionId room3_ready) []) (Str ''what is a worker'') = Inr 202"
    and q1: "mcp_sse env_short (or_else (mcpSessionId room3_ready) []) (Str ''what is a worker'') = Inr short_docs"
    by (simp_all add: env_short_def env0_def)
  have p2: "mcp_post env0 (or_else (mcpSessionId room3_ready) []) (Str ''what is a worker'') = Inr 202"
    and q2: "mcp_sse env0 (or_else (mcpSessionId room3_ready) []) (Str ''what is a worker'') = Inr docs"
    by (simp_all add: env0_def)
  note A = usable_search_results_threshold[OF x1 s1, of env_short room3_ready
      "Str ''what is a worker''" "Str default_model"]
  note B = usable_search_results_threshold[OF x2 s2, of env0 room3_ready
      "Str ''what is a worker''" "Str default_model"]
  have a1: "usable_search_results env_short short_docs = Inl EmptyRetrieval"
    using A by simp
  have a2: "handleMCPRequest_try env_short room3_ready (Str ''what is a worker'') (Str default_model) =
     (Inl EmptyRetrieval, room3_ready)"
    using A t p1 q1 a1 by simp
  have b1: "usable_search_results env0 docs = Inr (JStr ''Workers run on the edge.'')"
    using B by simp
  have b2: "handleMCPRequest_try env0 room3_ready (Str ''what is a worker'') (Str default_model) =
     (Inr ''An answer.'', room3_ready)"
    using B t p2 q2 b1 by (simp add: or_else_def env0_def)
  from x1 a1 a2 x2 b1 b2 show ?thesis by blast
qed

text \<open>
  The claim C6 as stated fails twice. When the retrieval result is \<^verbatim>\<open>null\<close> no text can be
  extracted, yet the responder does not fail with the empty-retrieval error but with the
  error of the read of \<^verbatim>\<open>mcpData.result\<close>. When the extracted text is the number 12345, the
  test lets it pass (a number has no \<^verbatim>\<open>length\<close>), and the responder neither fails with the
  empty-retrieval error nor reaches the synthesis: \<^verbatim>\<open>substring\<close> throws first.
\<close>

theorem usable_search_results_counterexample:
  "TypeError_null_result \<noteq> EmptyRetrieval \<and>
   TypeError_substring \<noteq> EmptyRetrieval \<and>
   usable_search_results env_null JNull = Inl TypeError_null_result \<and>
   handleMCPRequest_try env_null room3_ready (Str ''what is a worker'') (Str default_model) =
     (Inl TypeError_null_result, room3_ready) \<and>
   extract_text number_docs = Inr (Some (JNum (Finite 12345))) \<and>
   usable_search_results env_number number_docs = Inr (JNum (Finite 12345)) \<and>
   handleMCPRequest_try env_number room3_ready (Str ''what is a worker'') (Str default_model) =
     (Inl TypeError_substring, room3_ready)"
proof -
  have n1: "TypeError_null_result \<noteq> EmptyRetrieval" and n2: "TypeError_substring \<noteq> EmptyRetrieval"
    by (simp_all add: TypeError_null_result_def TypeError_substring_def EmptyRetrieval_def)
  have u0: "usable_search_results env_null JNull = Inl TypeError_null_result"
    by (simp add: usable_search_results_def extract_text_def)
  have x: "extract_text number_docs = Inr (Some (JNum (Finite 12345)))"
    unfolding number_docs_def by (rule extract_text_docs_with)
  have u1: "usable_search_results env_number number_docs = Inr (JNum (Finite 12345))"
    by (simp add: usable_search_results_def x json_truthy_def get_length_def less_than_10_def)
  have t: "truthy (mcpSessionId room3_ready)" "or_else (mcpSessionId room3_ready) [] = ''0b30557a9fc4e90e''"
    by (simp_all add: truthy_def or_else_def room3_ready_def)
  have c0: "mcp_post env_null ''0b30557a9fc4e90e'' (Str ''what is a worker'') = Inr 202"
    "mcp_sse env_null ''0b30557a9fc4e90e'' (Str ''what is a worker'') = Inr JNull"
    by (simp_all add: env_null_def env0_def)
  have c1: "mcp_post env_number ''0b30557a9fc4e90e'' (Str ''what is a worker'') = Inr 202"
    "mcp_sse env_number ''0b30557a9fc4e90e'' (Str ''what is a worker'') = Inr number_docs"
    by (simp_all add: env_number_def env0_def)
  have r0: "handleMCPRequest_try env_null room3_ready (Str ''what is a worker'') (Str default_model) =
     (Inl TypeError_null_result, room3_ready)"
    unfolding handleMCPRequest_try_def by (simp add: t c0 u0)
  have r1: "handleMCPRequest_try env_number room3_ready (Str ''what is a worker'') (Str default_model) =
     (Inl TypeError_substring, room3_ready)"
    unfolding handleMCPRequest_try_def by (simp add: t c1 u1 synthesize_def)
  from n1 n2 u0 r0 x u1 r1 show ?thesis by blast
qed

text \<open>
  C7. Whatever the body of the \<^verbatim>\<open>try\<close> throws (the lemmas \<open>try_session_throws\<close>,
  \<open>try_after_session\<close> and \<open>synthesize_throws\<close> list the steps: the session, the submission
  and its status, the push channel with its time-outs, the extraction and the empty
  retrieval, the synthesis), the responder returns a text: a fixed sentence that contains
  the message of the error and the advice to disable MCP search. The responder returns a
  text in every case; its caller never sees an exception of it.
\<close>

theorem handleMCPRequest_converts_failures:
  assumes "handleMCPRequest_try env st userQuery selectedModel = (Inl e, st')"
  shows "handleMCPRequest env st userQuery selectedModel = (mcp_failure_text e, st') \<and>
         str_includes (mcp_failure_text e) (message e) \<and>
         str_includes (mcp_failure_text e) ''disable MCP search''"
  using assms
  by (simp add: handleMCPRequest_def mcp_failure_text_names mcp_failure_text_suggests)

theorem handleMCPRequest_converts_failures_witness:
  "handleMCPRequest_try env_timeout room3_ready (Str ''what is a worker'') (Str default_model) =
     (Inl (Error ''SSE response timeout''), room3_ready) \<and>
   handleMCPRequest env_timeout room3_ready (Str ''what is a worker'') (Str default_model) =
     (''I encountered an issue accessing Cloudflare documentation: SSE response timeout. Please try again or disable MCP search for a general response.'',
      room3_ready)"
proof -
  have t: "handleMCPRequest_try env_timeout room3_ready (Str ''what is a worker'') (Str default_model) =
     (Inl (Error ''SSE response timeout''), room3_ready)"
    by (simp add: handleMCPRequest_try_def truthy_def or_else_def env_timeout_def env0_def
        room3_ready_def room3_def)
  from t handleMCPRequest_converts_failures[OF t] show ?thesis
    by (simp add: mcp_failure_text_def)
qed

end
